theory Spec2Isabelle
  imports Complex_Main "HOL-Library.Word"
begin

section \<open>The particle filter of particle\_filter.cpp\<close>

text \<open>
  A shallow embedding of \<^verbatim>\<open>src/particle_filter.cpp\<close>. A C++ \<^verbatim>\<open>double\<close> is modelled as a
  \<^typ>\<open>real\<close>. In the nearest-neighbour search, where the outcome of a comparison depends
  on it, every arithmetic operation is rounded to the nearest double; elsewhere rounding
  is outside the model and the statements are about the formulas the code evaluates.
  Overflow, infinities and NaN are outside the model throughout. The arrays \<^verbatim>\<open>double std[]\<close>
  are read at the indices 0, 1, 2 (respectively 0, 1) only and are modelled as a triple
  (respectively a pair). A \<^verbatim>\<open>std::vector\<close> is a list.
\<close>

subsection \<open>Data\<close>

text \<open>
  \<^verbatim>\<open>struct Particle\<close>; the fields \<^verbatim>\<open>id, x, y, theta\<close> carry the suffix \<open>_p\<close>, since the
  operations use the same names for their arguments.
\<close>

record Particle =
  id_p :: int
  x_p :: real
  y_p :: real
  theta_p :: real
  weight :: real
  associations :: "int list"
  sense_x :: "real list"
  sense_y :: "real list"

text \<open>\<^verbatim>\<open>struct LandmarkObs\<close> (fields \<^verbatim>\<open>id, x, y\<close>, here with the suffix \<open>_o\<close>).\<close>

record LandmarkObs =
  id_o :: int
  x_o :: real
  y_o :: real

text \<open>\<^verbatim>\<open>Map::single_landmark_s\<close> and \<^verbatim>\<open>class Map\<close>.\<close>

record single_landmark_s =
  id_i :: int
  x_f :: real
  y_f :: real

record landmark_map =
  landmark_list :: "single_landmark_s list"

text \<open>
  The random engine \<^verbatim>\<open>gen\<close> is declared outside this file. It is a parameter of the model:
  a generator state of any type \<open>'g\<close>, and the two ways the code draws from it. A draw
  of \<^verbatim>\<open>normal_distribution<double>(mean, stddev)\<close> takes a standard normal deviate \<open>z\<close>
  from the engine and returns \<open>z * stddev + mean\<close>, as the standard library computes it
  (the library asks for a positive \<open>stddev\<close> and, built without its assertions, does not
  check it: with \<open>stddev = 0\<close> the draw is the mean);
  a draw of \<^verbatim>\<open>discrete_distribution<>\<close> over a weight vector returns an index.
\<close>

record 'g random_source =
  std_normal :: "'g \<Rightarrow> real \<times> 'g"
  discrete :: "real list \<Rightarrow> 'g \<Rightarrow> nat \<times> 'g"

text \<open>The members of \<^verbatim>\<open>class ParticleFilter\<close> that this file reads and writes.\<close>

record 'g ParticleFilter =
  num_particles :: int
  particles :: "Particle list"
  weights :: "real list"
  gen :: 'g

text \<open>
  The ways a run can leave defined behaviour: dereferencing the begin iterator of an empty
  vector or indexing a vector out of range (\<open>UndefinedBehaviour\<close>), and the exception
  \<^verbatim>\<open>std::out_of_range\<close> of \<^verbatim>\<open>std::string::substr\<close> (\<open>OutOfRange\<close>). The code raises nothing
  else. A failing operation on the filter returns the error together with the state
  reached at the point of failure.
\<close>

datatype error = UndefinedBehaviour | OutOfRange

subsection \<open>Drawing from the random source\<close>

definition normal_distribution ::
  "'g random_source \<Rightarrow> real \<Rightarrow> real \<Rightarrow> 'g \<Rightarrow> real \<times> 'g" where
  "normal_distribution rs mean stddev g =
     (case std_normal rs g of (z, g') \<Rightarrow> (z * stddev + mean, g'))"

subsection \<open>init\<close>

text \<open>A value-initialised \<^verbatim>\<open>Particle\<close>, as \<^verbatim>\<open>vector::resize\<close> appends it.\<close>

definition default_Particle :: Particle where
  "default_Particle =
     \<lparr>id_p = 0, x_p = 0, y_p = 0, theta_p = 0, weight = 0,
      associations = [], sense_x = [], sense_y = []\<rparr>"

definition resize :: "nat \<Rightarrow> 'a \<Rightarrow> 'a list \<Rightarrow> 'a list" where
  "resize n d xs = take n xs @ replicate (n - length xs) d"

fun init_loop ::
  "'g random_source \<Rightarrow> real \<Rightarrow> real \<Rightarrow> real \<Rightarrow> real \<times> real \<times> real \<Rightarrow>
   Particle list \<Rightarrow> 'g \<Rightarrow> Particle list \<times> 'g" where
  "init_loop rs x y theta std [] g = ([], g)"
| "init_loop rs x y theta std (particle # rest) g =
     (case normal_distribution rs x (fst std) g of (px, g1) \<Rightarrow>
      case normal_distribution rs y (fst (snd std)) g1 of (py, g2) \<Rightarrow>
      case normal_distribution rs theta (snd (snd std)) g2 of (pt, g3) \<Rightarrow>
      case init_loop rs x y theta std rest g3 of (rest', g4) \<Rightarrow>
        (particle\<lparr>x_p := px, y_p := py, theta_p := pt, weight := 1\<rparr> # rest', g4))"

definition init ::
  "'g random_source \<Rightarrow> real \<Rightarrow> real \<Rightarrow> real \<Rightarrow> real \<times> real \<times> real \<Rightarrow>
   'g ParticleFilter \<Rightarrow> 'g ParticleFilter" where
  "init rs x y theta std pf =
     (case init_loop rs x y theta std (resize 100 default_Particle (particles pf)) (gen pf)
      of (ps, g) \<Rightarrow> pf\<lparr>num_particles := 100, particles := ps, gen := g\<rparr>)"

subsection \<open>prediction\<close>

fun predict_arc ::
  "'g random_source \<Rightarrow> real \<Rightarrow> real \<times> real \<times> real \<Rightarrow> real \<Rightarrow> real \<Rightarrow>
   Particle list \<Rightarrow> 'g \<Rightarrow> Particle list \<times> 'g" where
  "predict_arc rs delta_t std_pos velocity yaw_rate [] g = ([], g)"
| "predict_arc rs delta_t std_pos velocity yaw_rate (particle # rest) g =
     (case normal_distribution rs 0 (fst std_pos) g of (nx, g1) \<Rightarrow>
      case normal_distribution rs 0 (fst (snd std_pos)) g1 of (ny, g2) \<Rightarrow>
      case normal_distribution rs 0 (snd (snd std_pos)) g2 of (nt, g3) \<Rightarrow>
      case predict_arc rs delta_t std_pos velocity yaw_rate rest g3 of (rest', g4) \<Rightarrow>
        (particle
           \<lparr>x_p := x_p particle
              + velocity * (sin (theta_p particle + yaw_rate * delta_t) - sin (theta_p particle))
                / yaw_rate + nx,
            y_p := y_p particle
              + velocity * (cos (theta_p particle + yaw_rate * delta_t) - cos (theta_p particle))
                / yaw_rate + ny,
            theta_p := theta_p particle + yaw_rate * delta_t + nt\<rparr> # rest', g4))"

fun predict_straight ::
  "'g random_source \<Rightarrow> real \<Rightarrow> real \<times> real \<times> real \<Rightarrow> real \<Rightarrow> real \<Rightarrow>
   Particle list \<Rightarrow> 'g \<Rightarrow> Particle list \<times> 'g" where
  "predict_straight rs delta_t std_pos velocity yaw_rate [] g = ([], g)"
| "predict_straight rs delta_t std_pos velocity yaw_rate (particle # rest) g =
     (case normal_distribution rs 0 (fst std_pos) g of (nx, g1) \<Rightarrow>
      case normal_distribution rs 0 (fst (snd std_pos)) g1 of (ny, g2) \<Rightarrow>
      case normal_distribution rs 0 (snd (snd std_pos)) g2 of (nt, g3) \<Rightarrow>
      case predict_straight rs delta_t std_pos velocity yaw_rate rest g3 of (rest', g4) \<Rightarrow>
        (particle
           \<lparr>x_p := x_p particle + velocity * delta_t * cos (theta_p particle) + nx,
            y_p := y_p particle + velocity * delta_t * sin (theta_p particle) + ny,
            theta_p := theta_p particle + yaw_rate * delta_t + nt\<rparr> # rest', g4))"

definition prediction ::
  "'g random_source \<Rightarrow> real \<Rightarrow> real \<times> real \<times> real \<Rightarrow> real \<Rightarrow> real \<Rightarrow>
   'g ParticleFilter \<Rightarrow> 'g ParticleFilter" where
  "prediction rs delta_t std_pos velocity yaw_rate pf =
     (case (if \<bar>yaw_rate\<bar> > 1 / 1000000
            then predict_arc rs delta_t std_pos velocity yaw_rate (particles pf) (gen pf)
            else predict_straight rs delta_t std_pos velocity yaw_rate (particles pf) (gen pf))
      of (ps, g) \<Rightarrow> pf\<lparr>particles := ps, gen := g\<rparr>)"

subsection \<open>dataAssociation\<close>

text \<open>
  The body is empty. \<^verbatim>\<open>predicted\<close> is passed by value, \<^verbatim>\<open>observations\<close> by reference: the
  model returns the observations and the filter as the call leaves them.
\<close>

definition dataAssociation ::
  "LandmarkObs list \<Rightarrow> LandmarkObs list \<Rightarrow> 'g ParticleFilter \<Rightarrow>
   LandmarkObs list \<times> 'g ParticleFilter" where
  "dataAssociation predicted observations pf = (observations, pf)"

subsection \<open>Double arithmetic in the nearest-neighbour search\<close>

text \<open>
  Which landmark the search returns depends on how the distances round, so here the
  arithmetic is IEEE 754 binary64: the exact result of each subtraction, multiplication
  and addition, rounded to the nearest double, ties to the even significand (every
  operation in binary64, none fused and none in extended precision).

  \<open>pow2 e\<close> is \<open>2\<^sup>e\<close> for an integer \<open>e\<close>. The exponent of a non-zero \<open>x\<close> is
  \<open>\<lfloor>log\<^sub>2 \<bar>x\<bar>\<rfloor>\<close>, and \<open>-1022\<close> for the subnormal numbers below \<open>2\<^sup>-\<^sup>1\<^sup>0\<^sup>2\<^sup>2\<close>; the doubles of
  that exponent are the integer multiples of \<open>pow2 (e - 52)\<close>.

  The query point and the landmark coordinates are finite doubles. Overflow is left out:
  where the machine has \<open>+\<infinity>\<close> the model has a real above the largest double, and against a
  running minimum of at most 1e9 both compare alike.
\<close>

definition pow2 :: "int \<Rightarrow> real" where
  "pow2 e = (if 0 \<le> e then 2 ^ nat e else 1 / 2 ^ nat (- e))"

definition round_half_even :: "real \<Rightarrow> int" where
  "round_half_even q =
     (let f = \<lfloor>q\<rfloor>; r = q - of_int f
      in if r < 1 / 2 then f else if 1 / 2 < r then f + 1 else if even f then f else f + 1)"

definition double_exponent :: "real \<Rightarrow> int" where
  "double_exponent x = max \<lfloor>log 2 \<bar>x\<bar>\<rfloor> (- 1022)"

definition double_round :: "real \<Rightarrow> real" where
  "double_round x =
     (if x = 0 then 0
      else of_int (round_half_even (x / pow2 (double_exponent x - 52)))
           * pow2 (double_exponent x - 52))"

definition dsub :: "real \<Rightarrow> real \<Rightarrow> real" where
  "dsub a b = double_round (a - b)"

definition dmul :: "real \<Rightarrow> real \<Rightarrow> real" where
  "dmul a b = double_round (a * b)"

definition dadd :: "real \<Rightarrow> real \<Rightarrow> real" where
  "dadd a b = double_round (a + b)"

subsection \<open>findNearestNeighbour\<close>

text \<open>
  The loop over \<^verbatim>\<open>map.landmark_list\<close>, on the pair \<^verbatim>\<open>(minDist, nn)\<close>; the pointer \<^verbatim>\<open>nn\<close> is
  modelled by the landmark it points to.
\<close>

fun nn_loop ::
  "real \<Rightarrow> real \<Rightarrow> single_landmark_s list \<Rightarrow> real \<times> single_landmark_s \<Rightarrow>
   real \<times> single_landmark_s" where
  "nn_loop x y [] acc = acc"
| "nn_loop x y (landmark # rest) (minDist, nn) =
     (let dist = dadd (dmul (dsub x (x_f landmark)) (dsub x (x_f landmark)))
                      (dmul (dsub y (y_f landmark)) (dsub y (y_f landmark)))
      in if dist < minDist then nn_loop x y rest (dist, landmark)
         else nn_loop x y rest (minDist, nn))"

text \<open>
  \<^verbatim>\<open>&(*map.landmark_list.begin())\<close> dereferences the begin iterator; on an empty list that
  is undefined behaviour.
\<close>

definition findNearestNeighbour ::
  "real \<Rightarrow> real \<Rightarrow> landmark_map \<Rightarrow> error + single_landmark_s" where
  "findNearestNeighbour x y m =
     (case landmark_list m of
        [] \<Rightarrow> Inl UndefinedBehaviour
      | first # _ \<Rightarrow> Inr (snd (nn_loop x y (landmark_list m) (1000000000, first))))"

subsection \<open>updateWeights\<close>

text \<open>The value \<^verbatim>\<open>P\<close> of the inner loop, with \<^verbatim>\<open>sigX2\<close> and \<^verbatim>\<open>sigY2\<close> as the code sets them.\<close>

definition obs_P :: "real \<times> real \<Rightarrow> real \<Rightarrow> real \<Rightarrow> single_landmark_s \<Rightarrow> real" where
  "obs_P std_landmark x_map y_map lm =
     (let sigX2 = fst std_landmark * fst std_landmark;
          sigY2 = snd std_landmark * snd std_landmark
      in exp (- ((x_map - x_f lm) * (x_map - x_f lm) / 2 * fst std_landmark / sigX2
                 + (y_map - y_f lm) * (y_map - y_f lm) / sigY2))
         / (2 * pi * fst std_landmark * snd std_landmark))"

text \<open>The inner loop over the observations, for one particle.\<close>

fun weigh_observations ::
  "real \<times> real \<Rightarrow> landmark_map \<Rightarrow> LandmarkObs list \<Rightarrow> Particle \<Rightarrow>
   (error \<times> Particle) + Particle" where
  "weigh_observations std_landmark m [] particle = Inr particle"
| "weigh_observations std_landmark m (obs # rest) particle =
     (let x_map = x_p particle + (cos (theta_p particle) * x_o obs)
                              - (sin (theta_p particle) * y_o obs);
          y_map = y_p particle + (sin (theta_p particle) * x_o obs)
                              + (cos (theta_p particle) * y_o obs)
      in case findNearestNeighbour x_map y_map m of
           Inl e \<Rightarrow> Inl (e, particle)
         | Inr lm \<Rightarrow>
             weigh_observations std_landmark m rest
               (particle\<lparr>weight := weight particle * obs_P std_landmark x_map y_map lm\<rparr>))"

text \<open>The outer loop over the particles, which are updated in place.\<close>

fun weigh_particles ::
  "real \<times> real \<Rightarrow> LandmarkObs list \<Rightarrow> landmark_map \<Rightarrow> Particle list \<Rightarrow>
   (error \<times> Particle list) + Particle list" where
  "weigh_particles std_landmark observations m [] = Inr []"
| "weigh_particles std_landmark observations m (particle # rest) =
     (case weigh_observations std_landmark m observations (particle\<lparr>weight := 1\<rparr>) of
        Inl (e, particle') \<Rightarrow> Inl (e, particle' # rest)
      | Inr particle' \<Rightarrow>
          (case weigh_particles std_landmark observations m rest of
             Inl (e, rest') \<Rightarrow> Inl (e, particle' # rest')
           | Inr rest' \<Rightarrow> Inr (particle' # rest')))"

definition updateWeights ::
  "real \<Rightarrow> real \<times> real \<Rightarrow> LandmarkObs list \<Rightarrow> landmark_map \<Rightarrow>
   'g ParticleFilter \<Rightarrow> (error \<times> 'g ParticleFilter) + 'g ParticleFilter" where
  "updateWeights sensor_range std_landmark observations map_landmarks pf =
     (case weigh_particles std_landmark observations map_landmarks (particles pf) of
        Inl (e, ps) \<Rightarrow> Inl (e, pf\<lparr>particles := ps\<rparr>)
      | Inr ps \<Rightarrow> Inr (pf\<lparr>particles := ps, weights := map weight ps\<rparr>))"

subsection \<open>resample\<close>

text \<open>
  One draw of \<^verbatim>\<open>dist_w\<close> for each slot of \<^verbatim>\<open>newParticles\<close>; \<^verbatim>\<open>particles[i]\<close> with \<open>i\<close> out of
  range is undefined behaviour.
\<close>

fun resample_loop ::
  "'g random_source \<Rightarrow> real list \<Rightarrow> Particle list \<Rightarrow> nat \<Rightarrow> 'g \<Rightarrow>
   (error \<times> 'g) + (Particle list \<times> 'g)" where
  "resample_loop rs ws ps 0 g = Inr ([], g)"
| "resample_loop rs ws ps (Suc n) g =
     (case discrete rs ws g of (i, g') \<Rightarrow>
        if i < length ps
        then (case resample_loop rs ws ps n g' of
                Inl e \<Rightarrow> Inl e
              | Inr (newParticles, g'') \<Rightarrow> Inr (ps ! i # newParticles, g''))
        else Inl (UndefinedBehaviour, g'))"

definition resample ::
  "'g random_source \<Rightarrow> 'g ParticleFilter \<Rightarrow>
   (error \<times> 'g ParticleFilter) + 'g ParticleFilter" where
  "resample rs pf =
     (case resample_loop rs (weights pf) (particles pf) (length (particles pf)) (gen pf) of
        Inl (e, g) \<Rightarrow> Inl (e, pf\<lparr>gen := g\<rparr>)
      | Inr (newParticles, g) \<Rightarrow> Inr (pf\<lparr>particles := newParticles, gen := g\<rparr>))"

subsection \<open>Association bookkeeping\<close>

definition SetAssociations ::
  "Particle \<Rightarrow> int list \<Rightarrow> real list \<Rightarrow> real list \<Rightarrow> Particle" where
  "SetAssociations particle assocs sx sy =
     particle\<lparr>associations := assocs, sense_x := sx, sense_y := sy\<rparr>"

text \<open>\<^verbatim>\<open>operator<<\<close> on an \<^verbatim>\<open>int\<close>: the decimal digits, after a minus sign if negative.\<close>

fun show_nat :: "nat \<Rightarrow> string" where
  "show_nat n =
     (if n < 10 then [char_of (48 + n)]
      else show_nat (n div 10) @ [char_of (48 + n mod 10)])"

definition show_int :: "int \<Rightarrow> string" where
  "show_int i = (if i < 0 then CHR ''-'' # show_nat (nat (- i)) else show_nat (nat i))"

text \<open>
  \<^verbatim>\<open>std::string::substr(pos, count)\<close>: throws \<^verbatim>\<open>std::out_of_range\<close> if \<open>pos\<close> exceeds the
  size, and otherwise returns at most \<open>count\<close> characters from \<open>pos\<close>.
\<close>

definition substr :: "string \<Rightarrow> nat \<Rightarrow> nat \<Rightarrow> error + string" where
  "substr s pos count =
     (if pos > length s then Inl OutOfRange
      else Inr (take (min count (length s - pos)) (drop pos s)))"

text \<open>\<^verbatim>\<open>s.length()-1\<close> is computed in \<^verbatim>\<open>size_t\<close>, 64 bits wide, and wraps around at 0.\<close>

definition length_minus_1 :: "string \<Rightarrow> nat" where
  "length_minus_1 s = unat ((word_of_nat (length s) :: 64 word) - 1)"

definition getAssociations :: "Particle \<Rightarrow> error + string" where
  "getAssociations best =
     (let v = associations best;
          s = concat (map (\<lambda>i. show_int i @ '' '') v)
      in substr s 0 (length_minus_1 s))"

text \<open>
  \<^verbatim>\<open>ostream_iterator<float>\<close> converts each coordinate to \<^verbatim>\<open>float\<close> and prints it in the
  stream's default format; that rendering is the parameter \<open>show_float\<close>.
\<close>

definition getSenseCoord :: "(real \<Rightarrow> string) \<Rightarrow> Particle \<Rightarrow> string \<Rightarrow> error + string" where
  "getSenseCoord show_float best coord =
     (let v = (if coord = ''X'' then sense_x best else sense_y best);
          s = concat (map (\<lambda>c. show_float c @ '' '') v)
      in substr s 0 (length_minus_1 s))"

subsection \<open>The properties the specification names\<close>

text \<open>
  The bivariate Gaussian density with independent axes, written from the specification's
  formula; \<open>obs_P\<close> above is what the code computes.
\<close>

definition spec_density :: "real \<Rightarrow> real \<Rightarrow> real \<Rightarrow> real \<Rightarrow> real" where
  "spec_density sigma_x sigma_y dx dy =
     exp (- (dx\<^sup>2 / (2 * sigma_x\<^sup>2) + dy\<^sup>2 / (2 * sigma_y\<^sup>2))) / (2 * pi * sigma_x * sigma_y)"

text \<open>
  The squared Euclidean distance of a landmark from the query point, and the value of
  \<^verbatim>\<open>dist\<close> that the loop of \<open>nn_loop\<close> computes for it in double arithmetic.
\<close>

definition sq_dist :: "real \<Rightarrow> real \<Rightarrow> single_landmark_s \<Rightarrow> real" where
  "sq_dist x y lm = (x - x_f lm)\<^sup>2 + (y - y_f lm)\<^sup>2"

definition computed_dist :: "real \<Rightarrow> real \<Rightarrow> single_landmark_s \<Rightarrow> real" where
  "computed_dist x y lm =
     dadd (dmul (dsub x (x_f lm)) (dsub x (x_f lm))) (dmul (dsub y (y_f lm)) (dsub y (y_f lm)))"

text \<open>
  Position \<open>i\<close> holds an element of the list that is least under \<open>d\<close>, and every
  element before it is strictly greater: the first one, in the list's order, at the
  minimum.
\<close>

definition first_least :: "('a \<Rightarrow> real) \<Rightarrow> 'a list \<Rightarrow> nat \<Rightarrow> bool" where
  "first_least d ls i \<longleftrightarrow>
     i < length ls
     \<and> (\<forall>j < length ls. d (ls ! i) \<le> d (ls ! j))
     \<and> (\<forall>j < i. d (ls ! i) < d (ls ! j))"

text \<open>
  The two motion updates as the specification writes them, without noise; \<open>predict_arc\<close>
  and \<open>predict_straight\<close> above are what the code computes.
\<close>

definition spec_arc_update :: "real \<Rightarrow> real \<Rightarrow> real \<Rightarrow> Particle \<Rightarrow> Particle" where
  "spec_arc_update delta_t velocity yaw_rate p =
     p\<lparr>x_p := x_p p + (velocity / yaw_rate) * (sin (theta_p p + yaw_rate * delta_t) - sin (theta_p p)),
       y_p := y_p p + (velocity / yaw_rate) * (cos (theta_p p + yaw_rate * delta_t) - cos (theta_p p)),
       theta_p := theta_p p + yaw_rate * delta_t\<rparr>"

definition spec_straight_update :: "real \<Rightarrow> real \<Rightarrow> real \<Rightarrow> Particle \<Rightarrow> Particle" where
  "spec_straight_update delta_t velocity yaw_rate p =
     p\<lparr>x_p := x_p p + velocity * delta_t * cos (theta_p p),
       y_p := y_p p + velocity * delta_t * sin (theta_p p),
       theta_p := theta_p p + yaw_rate * delta_t\<rparr>"

text \<open>
  The filter cycle. The harness calls the three phases on the filter, one after the other;
  a sequence of calls stops at the first one that leaves defined behaviour.
\<close>

datatype call =
    Predict real "real \<times> real \<times> real" real real
  | Update real "real \<times> real" "LandmarkObs list" landmark_map
  | Resample

fun step ::
  "'g random_source \<Rightarrow> call \<Rightarrow> 'g ParticleFilter \<Rightarrow>
   (error \<times> 'g ParticleFilter) + 'g ParticleFilter" where
  "step rs (Predict delta_t std_pos velocity yaw_rate) pf =
     Inr (prediction rs delta_t std_pos velocity yaw_rate pf)"
| "step rs (Update sensor_range std_landmark observations map_landmarks) pf =
     updateWeights sensor_range std_landmark observations map_landmarks pf"
| "step rs Resample pf = resample rs pf"

fun run ::
  "'g random_source \<Rightarrow> call list \<Rightarrow> 'g ParticleFilter \<Rightarrow>
   (error \<times> 'g ParticleFilter) + 'g ParticleFilter" where
  "run rs [] pf = Inr pf"
| "run rs (c # cs) pf = (case step rs c pf of Inl e \<Rightarrow> Inl e | Inr pf' \<Rightarrow> run rs cs pf')"

section \<open>Rounding to a double\<close>

lemma pow2_pos: "0 < pow2 e"
  by (simp add: pow2_def)

lemma pow2_powr: "pow2 e = 2 powr (of_int e)"
  by (simp add: pow2_def powr_int)

lemma double_exponent_eq:
  assumes "pow2 e \<le> \<bar>x\<bar>" "\<bar>x\<bar> < pow2 (e + 1)" "- 1022 \<le> e"
  shows "double_exponent x = e"
proof -
  have pos: "0 < \<bar>x\<bar>" using assms(1) pow2_pos [of e] by linarith
  have "\<lfloor>log 2 \<bar>x\<bar>\<rfloor> = e"
    using assms(1,2) floor_log_eq_powr_iff [OF pos, of 2 e] by (simp add: pow2_powr)
  with assms(3) show ?thesis by (simp add: double_exponent_def)
qed

text \<open>Rounding a number whose binade is known: this is how a concrete value is rounded.\<close>

lemma double_round_eval:
  assumes "pow2 e \<le> \<bar>x\<bar>" "\<bar>x\<bar> < pow2 (e + 1)" "- 1022 \<le> e"
  shows "double_round x = of_int (round_half_even (x / pow2 (e - 52))) * pow2 (e - 52)"
proof -
  have "x \<noteq> 0" using assms(1) pow2_pos [of e] by auto
  then show ?thesis by (simp add: double_round_def double_exponent_eq [OF assms])
qed

lemma round_half_even_of_int: "round_half_even (of_int k) = k"
  by (simp add: round_half_even_def)

text \<open>An integer below \<open>2\<^sup>5\<^sup>3\<close> in absolute value is a double.\<close>

lemma double_round_of_int:
  assumes "\<bar>n\<bar> < 2 ^ 53"
  shows "double_round (of_int n) = of_int n"
proof (cases "n = 0")
  case True
  then show ?thesis by (simp add: double_round_def)
next
  case False
  define e where "e = \<lfloor>log 2 \<bar>real_of_int n\<bar>\<rfloor>"
  have one: "1 \<le> \<bar>real_of_int n\<bar>" using False by (simp flip: of_int_abs)
  then have e0: "0 \<le> e" by (simp add: e_def)
  have "\<bar>real_of_int n\<bar> < 2 ^ 53" using assms by (simp flip: of_int_abs)
  then have "\<bar>real_of_int n\<bar> < 2 powr 53" by simp
  then have "log 2 \<bar>real_of_int n\<bar> < 53" using one by (simp add: log_less_iff del: powr_numeral)
  then have e52: "e \<le> 52" by (simp add: e_def floor_le_iff)
  have de: "double_exponent (of_int n) = e" using e0 by (simp add: double_exponent_def e_def)
  have p: "pow2 (e - 52) = 1 / 2 ^ nat (52 - e)"
    using e52 by (cases "e = 52") (simp_all add: pow2_def)
  have "real_of_int n / pow2 (e - 52) = of_int (n * 2 ^ nat (52 - e))" by (simp add: p)
  then have "round_half_even (real_of_int n / pow2 (e - 52)) = n * 2 ^ nat (52 - e)"
    by (simp only: round_half_even_of_int)
  then show ?thesis using False by (simp add: double_round_def de p)
qed

text \<open>
  Between integer points that are less than \<open>2\<^sup>2\<^sup>6\<close> apart on each axis nothing rounds: the
  computed distance is the squared Euclidean distance.
\<close>

lemma computed_dist_int:
  assumes "x_f lm = of_int c" "y_f lm = of_int d" "\<bar>a - c\<bar> < 2 ^ 26" "\<bar>b - d\<bar> < 2 ^ 26"
  shows "computed_dist (of_int a) (of_int b) lm
         = of_int ((a - c) * (a - c) + (b - d) * (b - d))"
proof -
  have sq: "\<bar>k * k\<bar> < 2 ^ 52" if "\<bar>k\<bar> < 2 ^ 26" for k :: int
  proof -
    have "\<bar>k\<bar> * \<bar>k\<bar> < 2 ^ 26 * 2 ^ 26"
      using that by (intro mult_strict_mono') simp_all
    then show ?thesis by (simp add: abs_mult)
  qed
  have small: "\<bar>k\<bar> < 2 ^ 53" if "\<bar>k\<bar> < 2 ^ 26" for k :: int
    using that by simp
  have dx: "dsub (of_int a) (x_f lm) = of_int (a - c)"
    using double_round_of_int [OF small [OF assms(3)]] by (simp add: dsub_def assms(1))
  have dy: "dsub (of_int b) (y_f lm) = of_int (b - d)"
    using double_round_of_int [OF small [OF assms(4)]] by (simp add: dsub_def assms(2))
  have mx: "dmul (of_int (a - c)) (of_int (a - c)) = of_int ((a - c) * (a - c))"
    using double_round_of_int [of "(a - c) * (a - c)"] sq [OF assms(3)] by (simp add: dmul_def)
  have my: "dmul (of_int (b - d)) (of_int (b - d)) = of_int ((b - d) * (b - d))"
    using double_round_of_int [of "(b - d) * (b - d)"] sq [OF assms(4)] by (simp add: dmul_def)
  have "\<bar>(a - c) * (a - c) + (b - d) * (b - d)\<bar> < 2 ^ 53"
    using sq [OF assms(3)] sq [OF assms(4)] by simp
  from double_round_of_int [OF this]
  have "dadd (of_int ((a - c) * (a - c))) (of_int ((b - d) * (b - d)))
        = of_int ((a - c) * (a - c) + (b - d) * (b - d))"
    by (simp add: dadd_def)
  then show ?thesis by (simp only: computed_dist_def dx dy mx my)
qed

section \<open>Nearest-neighbour search\<close>

lemma nn_loop_Cons:
  "nn_loop x y (l # ls) (minDist, nn) =
     (if computed_dist x y l < minDist then nn_loop x y ls (computed_dist x y l, l)
      else nn_loop x y ls (minDist, nn))"
  by (simp add: computed_dist_def Let_def)

text \<open>No landmark below the running minimum: the loop changes nothing.\<close>

lemma nn_loop_keep:
  "\<forall>l \<in> set ls. minDist \<le> computed_dist x y l \<Longrightarrow>
   nn_loop x y ls (minDist, nn) = (minDist, nn)"
  by (induction ls) (auto simp: nn_loop_Cons simp del: nn_loop.simps(2))

text \<open>
  Some landmark below the running minimum: the loop ends on the first landmark of least
  computed distance. The running minimum changes along the list, so it is generalised in
  the induction.
\<close>

lemma nn_loop_first_min:
  "\<exists>l \<in> set ls. computed_dist x y l < minDist \<Longrightarrow>
   \<exists>i. first_least (computed_dist x y) ls i \<and> computed_dist x y (ls ! i) < minDist
       \<and> nn_loop x y ls (minDist, nn) = (computed_dist x y (ls ! i), ls ! i)"
proof (induction ls arbitrary: minDist nn)
  case Nil
  then show ?case by simp
next
  case (Cons l ls)
  let ?d = "computed_dist x y"
  show ?case
  proof (cases "?d l < minDist")
    case True
    show ?thesis
    proof (cases "\<exists>l' \<in> set ls. ?d l' < ?d l")
      case True
      from Cons.IH [OF True, of l] obtain i where
        i: "first_least ?d ls i" "?d (ls ! i) < ?d l"
           "nn_loop x y ls (?d l, l) = (?d (ls ! i), ls ! i)" by blast
      have "first_least ?d (l # ls) (Suc i)"
        using i(1,2) by (auto simp: first_least_def nth_Cons split: nat.splits)
      moreover have "?d ((l # ls) ! Suc i) < minDist"
        using i(2) \<open>?d l < minDist\<close> by simp
      moreover have "nn_loop x y (l # ls) (minDist, nn) = (?d ((l # ls) ! Suc i), (l # ls) ! Suc i)"
        using i(3) \<open>?d l < minDist\<close> by (simp add: nn_loop_Cons del: nn_loop.simps)
      ultimately show ?thesis by blast
    next
      case False
      then have all: "\<forall>l' \<in> set ls. ?d l \<le> ?d l'" by (simp add: not_less)
      have "first_least ?d (l # ls) 0"
        using all by (auto simp: first_least_def nth_Cons split: nat.splits)
      moreover have "nn_loop x y (l # ls) (minDist, nn) = (?d ((l # ls) ! 0), (l # ls) ! 0)"
        using nn_loop_keep [OF all, of l] \<open>?d l < minDist\<close>
        by (simp add: nn_loop_Cons del: nn_loop.simps)
      ultimately show ?thesis using \<open>?d l < minDist\<close> by (intro exI [of _ 0]) simp
    qed
  next
    case False
    with Cons.prems have ex: "\<exists>l' \<in> set ls. ?d l' < minDist" by auto
    from Cons.IH [OF ex, of nn] obtain i where
      i: "first_least ?d ls i" "?d (ls ! i) < minDist"
         "nn_loop x y ls (minDist, nn) = (?d (ls ! i), ls ! i)" by blast
    have "first_least ?d (l # ls) (Suc i)"
      using i(1,2) False by (auto simp: first_least_def nth_Cons split: nat.splits)
    moreover have "nn_loop x y (l # ls) (minDist, nn) = (?d ((l # ls) ! Suc i), (l # ls) ! Suc i)"
      using i(3) False by (simp add: nn_loop_Cons del: nn_loop.simps)
    ultimately show ?thesis using i(2) by (intro exI [of _ "Suc i"]) simp
  qed
qed

lemma findNearestNeighbour_far:
  assumes "landmark_list m \<noteq> []"
    "\<forall>l \<in> set (landmark_list m). 1000000000 \<le> computed_dist x y l"
  shows "findNearestNeighbour x y m = Inr (hd (landmark_list m))"
  using assms nn_loop_keep [of "landmark_list m" 1000000000 x y "hd (landmark_list m)"]
  by (cases "landmark_list m") (simp_all add: findNearestNeighbour_def del: nn_loop.simps(2))

lemma findNearestNeighbour_near:
  assumes "\<exists>l \<in> set (landmark_list m). computed_dist x y l < 1000000000"
  shows "\<exists>i. first_least (computed_dist x y) (landmark_list m) i
           \<and> findNearestNeighbour x y m = Inr (landmark_list m ! i)"
proof -
  from assms obtain a ls where eq: "landmark_list m = a # ls"
    by (cases "landmark_list m") auto
  from nn_loop_first_min [OF assms, of a] obtain i where
    "first_least (computed_dist x y) (landmark_list m) i"
    "nn_loop x y (landmark_list m) (1000000000, a)
       = (computed_dist x y (landmark_list m ! i), landmark_list m ! i)" by blast
  then show ?thesis by (auto simp: findNearestNeighbour_def eq simp del: nn_loop.simps(2))
qed

text \<open>On a map of one landmark the search returns that landmark.\<close>

lemma findNearestNeighbour_single:
  "landmark_list m = [l] \<Longrightarrow> findNearestNeighbour x y m = Inr l"
  by (simp add: findNearestNeighbour_def nn_loop_Cons del: nn_loop.simps(2))

text \<open>A map with a tie: the landmarks 2 and 3 are both at distance 1 from the origin.\<close>

lemma first_least_tie:
  "first_least (computed_dist 0 0)
     [\<lparr>id_i = 1, x_f = 3, y_f = 0\<rparr>, \<lparr>id_i = 2, x_f = 1, y_f = 0\<rparr>, \<lparr>id_i = 3, x_f = 0, y_f = 1\<rparr>] i
   \<longleftrightarrow> i = 1"
proof -
  have "computed_dist 0 0 \<lparr>id_i = 1, x_f = 3, y_f = 0\<rparr> = 9"
    using computed_dist_int [of "\<lparr>id_i = 1, x_f = 3, y_f = 0\<rparr>" 3 0 0 0] by simp
  moreover have "computed_dist 0 0 \<lparr>id_i = 2, x_f = 1, y_f = 0\<rparr> = 1"
    using computed_dist_int [of "\<lparr>id_i = 2, x_f = 1, y_f = 0\<rparr>" 1 0 0 0] by simp
  moreover have "computed_dist 0 0 \<lparr>id_i = 3, x_f = 0, y_f = 1\<rparr> = 1"
    using computed_dist_int [of "\<lparr>id_i = 3, x_f = 0, y_f = 1\<rparr>" 0 1 0 0] by simp
  ultimately show ?thesis
    by (auto simp: first_least_def nth_Cons less_Suc_eq numeral_3_eq_3 split: nat.splits)
qed

text \<open>
  Claim C3, as stated, fails: with every landmark at a squared distance of 1e9 or more, the
  search returns the first landmark of the map although the second is closer. Here the
  query point is the origin, landmark 1 is at squared distance 1e10 and landmark 2 at 1.6e9;
  all the numbers are integers, and no operation rounds.
\<close>

theorem findNearestNeighbour_not_closest:
  "findNearestNeighbour 0 0
     \<lparr>landmark_list = [\<lparr>id_i = 1, x_f = 100000, y_f = 0\<rparr>, \<lparr>id_i = 2, x_f = 40000, y_f = 0\<rparr>]\<rparr>
   = Inr \<lparr>id_i = 1, x_f = 100000, y_f = 0\<rparr>
   \<and> sq_dist 0 0 \<lparr>id_i = 2, x_f = 40000, y_f = 0\<rparr>
     < sq_dist 0 0 \<lparr>id_i = 1, x_f = 100000, y_f = 0\<rparr>"
proof -
  have "computed_dist 0 0 \<lparr>id_i = 1, x_f = 100000, y_f = 0\<rparr> = 10000000000"
    using computed_dist_int [of "\<lparr>id_i = 1, x_f = 100000, y_f = 0\<rparr>" 100000 0 0 0] by simp
  moreover have "computed_dist 0 0 \<lparr>id_i = 2, x_f = 40000, y_f = 0\<rparr> = 1600000000"
    using computed_dist_int [of "\<lparr>id_i = 2, x_f = 40000, y_f = 0\<rparr>" 40000 0 0 0] by simp
  ultimately show ?thesis
    by (simp add: findNearestNeighbour_def nn_loop_Cons sq_dist_def del: nn_loop.simps(2))
qed

text \<open>
  The closest landmark is missed below 1e9 as well, where two distances round to the same
  double. From the query point \<open>(1, 2\<^sup>-\<^sup>3\<^sup>0)\<close> landmark 1, at the origin, is at squared
  distance \<open>1 + 2\<^sup>-\<^sup>6\<^sup>0\<close>, which rounds to 1, and landmark 2, at \<open>(0, 2\<^sup>-\<^sup>3\<^sup>0)\<close>, is at squared
  distance 1: the search returns landmark 1.
\<close>

lemma findNearestNeighbour_rounding_tie:
  "findNearestNeighbour 1 (1 / 2 ^ 30)
     \<lparr>landmark_list = [\<lparr>id_i = 1, x_f = 0, y_f = 0\<rparr>, \<lparr>id_i = 2, x_f = 0, y_f = 1 / 2 ^ 30\<rparr>]\<rparr>
   = Inr \<lparr>id_i = 1, x_f = 0, y_f = 0\<rparr>
   \<and> sq_dist 1 (1 / 2 ^ 30) \<lparr>id_i = 2, x_f = 0, y_f = 1 / 2 ^ 30\<rparr>
     < sq_dist 1 (1 / 2 ^ 30) \<lparr>id_i = 1, x_f = 0, y_f = 0\<rparr>"
proof -
  have one: "double_round 1 = 1"
    using double_round_of_int [of 1] by simp
  have y: "double_round (1 / 2 ^ 30) = 1 / 2 ^ 30"
    by (subst double_round_eval [of "- 30"]) (simp_all add: pow2_def round_half_even_def)
  have yy: "double_round (1 / 2 ^ 30 * (1 / 2 ^ 30)) = 1 / 2 ^ 60"
    by (subst double_round_eval [of "- 60"]) (simp_all add: pow2_def round_half_even_def)
  have s: "double_round (1 + 1 / 2 ^ 60) = 1"
    by (subst double_round_eval [of 0]) (simp_all add: pow2_def round_half_even_def)
  have z: "double_round 0 = 0"
    by (simp add: double_round_def)
  have d1: "computed_dist 1 (1 / 2 ^ 30) \<lparr>id_i = 1, x_f = 0, y_f = 0\<rparr> = 1"
    by (simp only: computed_dist_def dsub_def dmul_def dadd_def single_landmark_s.select_convs
        diff_zero mult_1 one y yy s)
  have d2: "computed_dist 1 (1 / 2 ^ 30) \<lparr>id_i = 2, x_f = 0, y_f = 1 / 2 ^ 30\<rparr> = 1"
    by (simp only: computed_dist_def dsub_def dmul_def dadd_def single_landmark_s.select_convs
        diff_zero diff_self mult_1 mult_zero_left add_0_right one z)
  show ?thesis
    apply (simp only: findNearestNeighbour_def landmark_map.select_convs list.case
        nn_loop_Cons d1 d2)
    apply (simp add: sq_dist_def)
    done
qed

text \<open>
  Claim C3, amended: for every map and every query point with at least one landmark whose
  squared distance, as the code computes it in double arithmetic, is strictly below 1e9,
  the associator returns a landmark of least computed squared distance, and among the
  landmarks at that least computed distance the first one in the map's order.
\<close>

theorem findNearestNeighbour_first_closest:
  assumes "\<exists>l \<in> set (landmark_list m). computed_dist x y l < 1000000000"
  shows "\<exists>i. first_least (computed_dist x y) (landmark_list m) i
           \<and> findNearestNeighbour x y m = Inr (landmark_list m ! i)"
  using assms by (rule findNearestNeighbour_near)

theorem findNearestNeighbour_first_closest_witness:
  "(\<exists>l \<in> set [\<lparr>id_i = 1, x_f = 3, y_f = 0\<rparr>, \<lparr>id_i = 2, x_f = 1, y_f = 0\<rparr>,
              \<lparr>id_i = 3, x_f = 0, y_f = 1\<rparr>]. computed_dist 0 0 l < 1000000000)
   \<and> findNearestNeighbour 0 0
       \<lparr>landmark_list = [\<lparr>id_i = 1, x_f = 3, y_f = 0\<rparr>, \<lparr>id_i = 2, x_f = 1, y_f = 0\<rparr>,
                         \<lparr>id_i = 3, x_f = 0, y_f = 1\<rparr>]\<rparr>
     = Inr \<lparr>id_i = 2, x_f = 1, y_f = 0\<rparr>"
proof -
  let ?ls = "[\<lparr>id_i = 1, x_f = 3, y_f = 0\<rparr>, \<lparr>id_i = 2, x_f = 1, y_f = 0\<rparr>,
              \<lparr>id_i = 3, x_f = 0, y_f = 1\<rparr>]"
  have "computed_dist 0 0 \<lparr>id_i = 2, x_f = 1, y_f = 0\<rparr> = 1"
    using computed_dist_int [of "\<lparr>id_i = 2, x_f = 1, y_f = 0\<rparr>" 1 0 0 0] by simp
  then have h: "\<exists>l \<in> set (landmark_list \<lparr>landmark_list = ?ls\<rparr>). computed_dist 0 0 l < 1000000000"
    by simp
  from findNearestNeighbour_first_closest [OF h] obtain i where
    "first_least (computed_dist 0 0) ?ls i"
    "findNearestNeighbour 0 0 \<lparr>landmark_list = ?ls\<rparr> = Inr (?ls ! i)" by auto
  then have "findNearestNeighbour 0 0 \<lparr>landmark_list = ?ls\<rparr> = Inr \<lparr>id_i = 2, x_f = 1, y_f = 0\<rparr>"
    by (simp add: first_least_tie)
  with h show ?thesis by simp
qed

text \<open>
  Claim C8, as stated, fails: the running minimum is compared with the computed distance,
  which can round below 1e9 where the squared Euclidean distance is not. From the query
  point \<open>(-3/2\<^sup>4\<^sup>1, 2\<^sup>-\<^sup>3\<^sup>8)\<close> both landmarks are at a squared distance of at least 1e9; for
  landmark 2 the subtraction \<open>x - 30000\<close> rounds to \<open>-30000\<close> and the code computes
  \<open>1e9 - 2\<^sup>-\<^sup>2\<^sup>3\<close>, so the search returns landmark 2 and not the first landmark of the map.
\<close>

theorem findNearestNeighbour_sentinel_rounding:
  "1000000000 \<le> sq_dist (- 3 / 2 ^ 41) (1 / 2 ^ 38) \<lparr>id_i = 1, x_f = 100000, y_f = 0\<rparr>
   \<and> 1000000000 \<le> sq_dist (- 3 / 2 ^ 41) (1 / 2 ^ 38) \<lparr>id_i = 2, x_f = 30000, y_f = 10000\<rparr>
   \<and> findNearestNeighbour (- 3 / 2 ^ 41) (1 / 2 ^ 38)
       \<lparr>landmark_list = [\<lparr>id_i = 1, x_f = 100000, y_f = 0\<rparr>,
                         \<lparr>id_i = 2, x_f = 30000, y_f = 10000\<rparr>]\<rparr>
     = Inr \<lparr>id_i = 2, x_f = 30000, y_f = 10000\<rparr>"
proof -
  have s1: "double_round (- 3 / 2 ^ 41 - 100000) = - 100000"
    by (subst double_round_eval [of 16]) (simp_all add: pow2_def round_half_even_def)
  have m1: "double_round (- 100000 * - 100000) = 10000000000"
    using double_round_of_int [of 10000000000] by simp
  have t1: "double_round (1 / 2 ^ 38) = 1 / 2 ^ 38"
    by (subst double_round_eval [of "- 38"]) (simp_all add: pow2_def round_half_even_def)
  have m2: "double_round (1 / 2 ^ 38 * (1 / 2 ^ 38)) = 1 / 2 ^ 76"
    by (subst double_round_eval [of "- 76"]) (simp_all add: pow2_def round_half_even_def)
  have a1: "double_round (10000000000 + 1 / 2 ^ 76) = 10000000000"
    by (subst double_round_eval [of 33]) (simp_all add: pow2_def round_half_even_def)
  have s2: "double_round (- 3 / 2 ^ 41 - 30000) = - 30000"
    by (subst double_round_eval [of 14]) (simp_all add: pow2_def round_half_even_def)
  have m3: "double_round (- 30000 * - 30000) = 900000000"
    using double_round_of_int [of 900000000] by simp
  have t2: "double_round (1 / 2 ^ 38 - 10000) = 1 / 2 ^ 38 - 10000"
    by (subst double_round_eval [of 13]) (simp_all add: pow2_def round_half_even_def)
  have m4: "double_round ((1 / 2 ^ 38 - 10000) * (1 / 2 ^ 38 - 10000)) = 100000000 - 5 / 2 ^ 26"
    by (subst double_round_eval [of 26]) (simp_all add: pow2_def round_half_even_def)
  have a2: "double_round (900000000 + (100000000 - 5 / 2 ^ 26)) = 1000000000 - 1 / 2 ^ 23"
    by (subst double_round_eval [of 29]) (simp_all add: pow2_def round_half_even_def)
  have d1: "computed_dist (- 3 / 2 ^ 41) (1 / 2 ^ 38) \<lparr>id_i = 1, x_f = 100000, y_f = 0\<rparr>
            = 10000000000"
    by (simp only: computed_dist_def dsub_def dmul_def dadd_def single_landmark_s.select_convs
        diff_zero s1 m1 t1 m2 a1)
  have d2: "computed_dist (- 3 / 2 ^ 41) (1 / 2 ^ 38) \<lparr>id_i = 2, x_f = 30000, y_f = 10000\<rparr>
            = 1000000000 - 1 / 2 ^ 23"
    by (simp only: computed_dist_def dsub_def dmul_def dadd_def single_landmark_s.select_convs
        s2 m3 t2 m4 a2)
  have "findNearestNeighbour (- 3 / 2 ^ 41) (1 / 2 ^ 38)
       \<lparr>landmark_list = [\<lparr>id_i = 1, x_f = 100000, y_f = 0\<rparr>,
                         \<lparr>id_i = 2, x_f = 30000, y_f = 10000\<rparr>]\<rparr>
     = Inr \<lparr>id_i = 2, x_f = 30000, y_f = 10000\<rparr>"
    apply (simp only: findNearestNeighbour_def landmark_map.select_convs list.case
        nn_loop_Cons d1 d2)
    apply simp
    done
  then show ?thesis by (simp add: sq_dist_def power2_eq_square)
qed

text \<open>
  Claim C8, amended: the search starts from the running minimum 1e9 and the first landmark
  of the map. So when the squared distance of every landmark, as the code computes it in
  double arithmetic, is at least 1e9, it returns the first landmark of the map, whichever
  is closest; and when some landmark's computed squared distance is strictly below 1e9 it
  returns the first landmark of least computed squared distance.
\<close>

theorem findNearestNeighbour_sentinel:
  "(landmark_list m \<noteq> [] \<and> (\<forall>l \<in> set (landmark_list m). 1000000000 \<le> computed_dist x y l)
      \<longrightarrow> findNearestNeighbour x y m = Inr (hd (landmark_list m)))
   \<and> ((\<exists>l \<in> set (landmark_list m). computed_dist x y l < 1000000000)
      \<longrightarrow> (\<exists>i. first_least (computed_dist x y) (landmark_list m) i
             \<and> findNearestNeighbour x y m = Inr (landmark_list m ! i)))"
  using findNearestNeighbour_far [of m x y] findNearestNeighbour_near [of m x y] by blast

theorem findNearestNeighbour_sentinel_witness:
  "1000000000 \<le> computed_dist 0 0 \<lparr>id_i = 7, x_f = 0, y_f = 50000\<rparr>
   \<and> 1000000000 \<le> computed_dist 0 0 \<lparr>id_i = 8, x_f = 0, y_f = 32000\<rparr>
   \<and> findNearestNeighbour 0 0
       \<lparr>landmark_list = [\<lparr>id_i = 7, x_f = 0, y_f = 50000\<rparr>, \<lparr>id_i = 8, x_f = 0, y_f = 32000\<rparr>]\<rparr>
     = Inr \<lparr>id_i = 7, x_f = 0, y_f = 50000\<rparr>
   \<and> sq_dist 0 0 \<lparr>id_i = 8, x_f = 0, y_f = 32000\<rparr> < sq_dist 0 0 \<lparr>id_i = 7, x_f = 0, y_f = 50000\<rparr>
   \<and> (\<exists>l \<in> set [\<lparr>id_i = 7, x_f = 0, y_f = 50000\<rparr>, \<lparr>id_i = 8, x_f = 0, y_f = 31000\<rparr>].
       computed_dist 0 0 l < 1000000000)
   \<and> (\<exists>i. first_least (computed_dist 0 0)
             [\<lparr>id_i = 7, x_f = 0, y_f = 50000\<rparr>, \<lparr>id_i = 8, x_f = 0, y_f = 31000\<rparr>] i
         \<and> findNearestNeighbour 0 0
             \<lparr>landmark_list = [\<lparr>id_i = 7, x_f = 0, y_f = 50000\<rparr>,
                               \<lparr>id_i = 8, x_f = 0, y_f = 31000\<rparr>]\<rparr>
           = Inr ([\<lparr>id_i = 7, x_f = 0, y_f = 50000\<rparr>, \<lparr>id_i = 8, x_f = 0, y_f = 31000\<rparr>] ! i))"
proof -
  have c7: "computed_dist 0 0 \<lparr>id_i = 7, x_f = 0, y_f = 50000\<rparr> = 2500000000"
    using computed_dist_int [of "\<lparr>id_i = 7, x_f = 0, y_f = 50000\<rparr>" 0 50000 0 0] by simp
  have c8: "computed_dist 0 0 \<lparr>id_i = 8, x_f = 0, y_f = 32000\<rparr> = 1024000000"
    using computed_dist_int [of "\<lparr>id_i = 8, x_f = 0, y_f = 32000\<rparr>" 0 32000 0 0] by simp
  have c9: "computed_dist 0 0 \<lparr>id_i = 8, x_f = 0, y_f = 31000\<rparr> = 961000000"
    using computed_dist_int [of "\<lparr>id_i = 8, x_f = 0, y_f = 31000\<rparr>" 0 31000 0 0] by simp
  show ?thesis
    using findNearestNeighbour_sentinel
            [of "\<lparr>landmark_list = [\<lparr>id_i = 7, x_f = 0, y_f = 50000\<rparr>,
                                    \<lparr>id_i = 8, x_f = 0, y_f = 32000\<rparr>]\<rparr>" 0 0]
          findNearestNeighbour_sentinel
            [of "\<lparr>landmark_list = [\<lparr>id_i = 7, x_f = 0, y_f = 50000\<rparr>,
                                    \<lparr>id_i = 8, x_f = 0, y_f = 31000\<rparr>]\<rparr>" 0 0]
    by (simp add: c7 c8 c9 sq_dist_def)
qed

section \<open>updateWeights\<close>

text \<open>What the code's \<open>P\<close> amounts to, for non-zero standard deviations.\<close>

lemma obs_P_closed_form:
  assumes "sx \<noteq> 0" "sy \<noteq> 0"
  shows "obs_P (sx, sy) x_map y_map lm =
     exp (- ((x_map - x_f lm)\<^sup>2 / (2 * sx) + (y_map - y_f lm)\<^sup>2 / sy\<^sup>2)) / (2 * pi * sx * sy)"
  using assms by (simp add: obs_P_def Let_def power2_eq_square)

text \<open>
  Claim C1 does not hold of the code. The particle is at the origin with heading 0, the
  observation is (1, 1), the only landmark is at the origin and the standard deviations
  are (2, 1), so \<open>dx = dy = 1\<close>. The code multiplies the weight by
  \<open>exp (- 5/4) / (4 pi)\<close>, and the Gaussian density there is \<open>exp (- 5/8) / (4 pi)\<close>.
\<close>

theorem updateWeights_density_not_gaussian:
  "updateWeights 50 (2, 1) [\<lparr>id_o = 0, x_o = 1, y_o = 1\<rparr>]
     \<lparr>landmark_list = [\<lparr>id_i = 1, x_f = 0, y_f = 0\<rparr>]\<rparr>
     \<lparr>num_particles = 1, particles = [default_Particle], weights = [], gen = ()\<rparr>
   = Inr \<lparr>num_particles = 1,
          particles = [default_Particle\<lparr>weight := exp (- (5 / 4)) / (4 * pi)\<rparr>],
          weights = [exp (- (5 / 4)) / (4 * pi)], gen = ()\<rparr>
   \<and> spec_density 2 1 (1 - 0) (1 - 0) = exp (- (5 / 8)) / (4 * pi)
   \<and> exp (- (5 / 4)) / (4 * pi) \<noteq> spec_density 2 1 (1 - 0) (1 - 0)"
proof (intro conjI)
  show "updateWeights 50 (2, 1) [\<lparr>id_o = 0, x_o = 1, y_o = 1\<rparr>]
     \<lparr>landmark_list = [\<lparr>id_i = 1, x_f = 0, y_f = 0\<rparr>]\<rparr>
     \<lparr>num_particles = 1, particles = [default_Particle], weights = [], gen = ()\<rparr>
   = Inr \<lparr>num_particles = 1,
          particles = [default_Particle\<lparr>weight := exp (- (5 / 4)) / (4 * pi)\<rparr>],
          weights = [exp (- (5 / 4)) / (4 * pi)], gen = ()\<rparr>"
    by (simp add: updateWeights_def findNearestNeighbour_single obs_P_def default_Particle_def
        Let_def)
  show "spec_density 2 1 (1 - 0) (1 - 0) = exp (- (5 / 8)) / (4 * pi)"
    by (simp add: spec_density_def)
  then show "exp (- (5 / 4)) / (4 * pi) \<noteq> spec_density 2 1 (1 - 0) (1 - 0)"
    by simp
qed

text \<open>
  Claim C7: two calls of UpdateWeights that differ only in the sensor range give the same
  result, particle weights and weight vector included: the code never reads the argument.
\<close>

theorem updateWeights_ignores_sensor_range:
  "updateWeights sensor_range1 std_landmark observations map_landmarks pf
   = updateWeights sensor_range2 std_landmark observations map_landmarks pf"
  by (simp add: updateWeights_def)

text \<open>On a non-empty map the search returns, and so do the loops around it.\<close>

lemma weigh_observations_total:
  "landmark_list m \<noteq> [] \<Longrightarrow> \<exists>p'. weigh_observations std_landmark m obs p = Inr p'"
proof (induction obs arbitrary: p)
  case Nil
  then show ?case by simp
next
  case (Cons ob obs)
  show ?case
    using Cons.prems Cons.IH
    by (cases "landmark_list m") (simp_all add: findNearestNeighbour_def Let_def)
qed

lemma weigh_particles_total:
  "landmark_list m \<noteq> [] \<Longrightarrow> \<exists>ps'. weigh_particles std_landmark obs m ps = Inr ps'"
proof (induction ps)
  case Nil
  then show ?case by simp
next
  case (Cons p ps)
  from weigh_observations_total [OF Cons.prems] obtain p' where
    "weigh_observations std_landmark m obs (p\<lparr>weight := 1\<rparr>) = Inr p'" by blast
  moreover from Cons obtain ps' where "weigh_particles std_landmark obs m ps = Inr ps'" by blast
  ultimately show ?case by simp
qed

lemma updateWeights_total:
  "landmark_list m \<noteq> [] \<Longrightarrow> \<exists>pf'. updateWeights sensor_range std_landmark obs m pf = Inr pf'"
  using weigh_particles_total [of m std_landmark obs "particles pf"]
  by (auto simp: updateWeights_def)

lemma weigh_particles_no_obs:
  "weigh_particles std_landmark [] m ps = Inr (map (\<lambda>p. p\<lparr>weight := 1\<rparr>) ps)"
  by (induction ps) simp_all

lemma length_weigh_particles:
  "weigh_particles std_landmark observations m ps = Inr ps' \<Longrightarrow> length ps' = length ps"
  by (induction ps arbitrary: ps') (auto split: sum.splits prod.splits)

lemma updateWeights_size:
  "updateWeights sensor_range std_landmark observations m pf = Inr pf' \<Longrightarrow>
   length (particles pf') = length (particles pf) \<and> num_particles pf' = num_particles pf
   \<and> length (weights pf') = length (particles pf)"
  by (auto simp: updateWeights_def split: sum.splits prod.splits dest: length_weigh_particles)

text \<open>
  Claim C4, as stated, fails: with two particles of weights 1/2 and 1/4, one observation and
  an empty map, the code reports no InvalidMap. It resets the weight of the first particle
  to 1 and then dereferences the begin iterator of the empty landmark list, which is
  undefined behaviour; the weight vector still holds the old weights.
\<close>

theorem updateWeights_empty_map_undefined:
  "updateWeights 50 (1, 1) [\<lparr>id_o = 0, x_o = 1, y_o = 1\<rparr>] \<lparr>landmark_list = []\<rparr>
     \<lparr>num_particles = 2,
      particles = [default_Particle\<lparr>weight := 1 / 2\<rparr>, default_Particle\<lparr>weight := 1 / 4\<rparr>],
      weights = [1 / 2, 1 / 4], gen = ()\<rparr>
   = Inl (UndefinedBehaviour,
      \<lparr>num_particles = 2,
       particles = [default_Particle\<lparr>weight := 1\<rparr>, default_Particle\<lparr>weight := 1 / 4\<rparr>],
       weights = [1 / 2, 1 / 4], gen = ()\<rparr>)"
  by (simp add: updateWeights_def findNearestNeighbour_def default_Particle_def)

text \<open>
  Claim C4, amended: UpdateWeights does not check the map and has no InvalidMap failure; a
  non-empty map is an unchecked precondition of association. On a non-empty map it
  completes normally, and with an empty observation list, where no association is
  attempted, it completes normally on any map, the empty one included, with every particle
  weight and every entry of the WeightVector equal to 1.0.
\<close>

theorem updateWeights_no_map_check:
  "(landmark_list m \<noteq> [] \<longrightarrow>
      (\<exists>pf'. updateWeights sensor_range std_landmark observations m pf = Inr pf'))
   \<and> updateWeights sensor_range std_landmark [] m pf
     = Inr (pf\<lparr>particles := map (\<lambda>p. p\<lparr>weight := 1\<rparr>) (particles pf),
               weights := map (\<lambda>p. 1) (particles pf)\<rparr>)"
  using updateWeights_total [of m sensor_range std_landmark observations pf]
  by (simp add: updateWeights_def weigh_particles_no_obs comp_def)

theorem updateWeights_no_map_check_witness:
  "landmark_list \<lparr>landmark_list = [\<lparr>id_i = 1, x_f = 0, y_f = 0\<rparr>]\<rparr> \<noteq> []
   \<and> (\<exists>pf'. updateWeights 50 (1, 1) [\<lparr>id_o = 0, x_o = 1, y_o = 1\<rparr>]
               \<lparr>landmark_list = [\<lparr>id_i = 1, x_f = 0, y_f = 0\<rparr>]\<rparr>
               \<lparr>num_particles = 1, particles = [default_Particle], weights = [], gen = ()\<rparr>
             = Inr pf')
   \<and> updateWeights 50 (1, 1) [] \<lparr>landmark_list = []\<rparr>
        \<lparr>num_particles = 1, particles = [default_Particle\<lparr>weight := 1 / 2\<rparr>],
         weights = [1 / 2], gen = ()\<rparr>
     = Inr \<lparr>num_particles = 1, particles = [default_Particle\<lparr>weight := 1\<rparr>],
            weights = [1], gen = ()\<rparr>"
  using updateWeights_no_map_check
          [of "\<lparr>landmark_list = [\<lparr>id_i = 1, x_f = 0, y_f = 0\<rparr>]\<rparr>" 50 "(1, 1)"
              "[\<lparr>id_o = 0, x_o = 1, y_o = 1\<rparr>]"
              "\<lparr>num_particles = 1, particles = [default_Particle], weights = [], gen = ()\<rparr>"]
        updateWeights_no_map_check
          [of "\<lparr>landmark_list = []\<rparr>" 50 "(1, 1)" "[]"
              "\<lparr>num_particles = 1, particles = [default_Particle\<lparr>weight := 1 / 2\<rparr>],
                weights = [1 / 2], gen = ()\<rparr>"]
  by simp

section \<open>dataAssociation\<close>

text \<open>
  Claim C9: dataAssociation is a no-op: it leaves its observations argument and the whole
  filter state, population and weights included, as they were.
\<close>

theorem dataAssociation_noop:
  "dataAssociation predicted observations pf = (observations, pf)"
  by (simp add: dataAssociation_def)

section \<open>Rendering the association lists\<close>

text \<open>On the empty string \<^verbatim>\<open>s.length()-1\<close> wraps around to the largest \<^verbatim>\<open>size_t\<close>.\<close>

lemma length_minus_1_empty: "length_minus_1 [] = 18446744073709551615"
  by (simp add: length_minus_1_def unsigned_minus_1_eq_mask mask_eq_exp_minus_1)

lemma getAssociations_example:
  "getAssociations (default_Particle\<lparr>associations := [12, - 3, 0, 105]\<rparr>) = Inr ''12 -3 0 105''"
  by code_simp

text \<open>
  Claim C10: on a particle whose list of associations is empty, getAssociations returns the
  empty string, and on one whose selected coordinate list is empty so does getSenseCoord;
  neither raises \<^verbatim>\<open>std::out_of_range\<close>, although the count passed to \<^verbatim>\<open>substr\<close> has wrapped
  around.
\<close>

theorem render_empty_lists:
  "(associations best = [] \<longrightarrow> getAssociations best = Inr [])
   \<and> (sense_x best = [] \<longrightarrow> getSenseCoord show_float best ''X'' = Inr [])
   \<and> (sense_y best = [] \<and> coord \<noteq> ''X'' \<longrightarrow> getSenseCoord show_float best coord = Inr [])"
  by (simp add: getAssociations_def getSenseCoord_def substr_def Let_def)

theorem render_empty_lists_witness:
  "associations default_Particle = [] \<and> getAssociations default_Particle = Inr []
   \<and> sense_x default_Particle = []
   \<and> getSenseCoord (\<lambda>c. ''0'') default_Particle ''X'' = Inr []
   \<and> sense_y default_Particle = [] \<and> ''Y'' \<noteq> ''X''
   \<and> getSenseCoord (\<lambda>c. ''0'') default_Particle ''Y'' = Inr []"
  using render_empty_lists [of default_Particle "\<lambda>c. ''0''" "''Y''"]
  by (simp add: default_Particle_def)

section \<open>init and prediction\<close>

lemma normal_distribution_zero_std:
  "normal_distribution rs mean 0 g = (mean, snd (std_normal rs g))"
  by (simp add: normal_distribution_def split: prod.splits)

lemma length_resize: "length (resize n d xs) = n"
  by (simp add: resize_def)

lemma length_init_loop:
  "init_loop rs x y theta std ps g = (ps', g') \<Longrightarrow> length ps' = length ps"
  by (induction ps arbitrary: g ps' g') (auto split: prod.splits)

lemma init_loop_weight:
  "init_loop rs x y theta std ps g = (ps', g') \<Longrightarrow> \<forall>p \<in> set ps'. weight p = 1"
  by (induction ps arbitrary: g ps' g') (auto split: prod.splits)

lemma init_size:
  "length (particles (init rs x y theta std pf)) = 100
   \<and> num_particles (init rs x y theta std pf) = 100"
  by (auto simp: init_def length_resize split: prod.splits dest!: length_init_loop)

lemma init_weights: "\<forall>p \<in> set (particles (init rs x y theta std pf)). weight p = 1"
  by (auto simp: init_def split: prod.splits dest!: init_loop_weight)

lemma length_predict_arc:
  "predict_arc rs delta_t std_pos velocity yaw_rate ps g = (ps', g') \<Longrightarrow> length ps' = length ps"
  by (induction ps arbitrary: g ps' g') (auto split: prod.splits)

lemma length_predict_straight:
  "predict_straight rs delta_t std_pos velocity yaw_rate ps g = (ps', g') \<Longrightarrow>
   length ps' = length ps"
  by (induction ps arbitrary: g ps' g') (auto split: prod.splits)

lemma predict_arc_weight:
  "predict_arc rs delta_t std_pos velocity yaw_rate ps g = (ps', g') \<Longrightarrow>
   map weight ps' = map weight ps"
  by (induction ps arbitrary: g ps' g') (auto split: prod.splits)

lemma predict_straight_weight:
  "predict_straight rs delta_t std_pos velocity yaw_rate ps g = (ps', g') \<Longrightarrow>
   map weight ps' = map weight ps"
  by (induction ps arbitrary: g ps' g') (auto split: prod.splits)

lemma prediction_size:
  "length (particles (prediction rs delta_t std_pos velocity yaw_rate pf)) = length (particles pf)
   \<and> num_particles (prediction rs delta_t std_pos velocity yaw_rate pf) = num_particles pf"
  by (auto simp: prediction_def split: prod.splits if_splits
      dest!: length_predict_arc length_predict_straight)

lemma prediction_weights:
  "map weight (particles (prediction rs delta_t std_pos velocity yaw_rate pf))
   = map weight (particles pf)
   \<and> weights (prediction rs delta_t std_pos velocity yaw_rate pf) = weights pf"
  by (auto simp: prediction_def split: prod.splits if_splits
      dest!: predict_arc_weight predict_straight_weight)

text \<open>
  With all three standard deviations zero the noise vanishes, and the code applies the
  specification's arc update exactly when \<open>\<bar>yaw_rate\<bar> > 1e-6\<close> and its straight-line
  update otherwise.
\<close>

lemma predict_arc_zero_noise:
  "predict_arc rs delta_t (0, 0, 0) velocity yaw_rate ps g = (ps', g') \<Longrightarrow>
   ps' = map (spec_arc_update delta_t velocity yaw_rate) ps"
  by (induction ps arbitrary: g ps' g')
     (auto simp: normal_distribution_zero_std spec_arc_update_def split: prod.splits)

lemma predict_straight_zero_noise:
  "predict_straight rs delta_t (0, 0, 0) velocity yaw_rate ps g = (ps', g') \<Longrightarrow>
   ps' = map (spec_straight_update delta_t velocity yaw_rate) ps"
  by (induction ps arbitrary: g ps' g')
     (auto simp: normal_distribution_zero_std spec_straight_update_def split: prod.splits)

lemma prediction_zero_noise:
  "particles (prediction rs delta_t (0, 0, 0) velocity yaw_rate pf)
   = (if \<bar>yaw_rate\<bar> > 1 / 1000000
      then map (spec_arc_update delta_t velocity yaw_rate) (particles pf)
      else map (spec_straight_update delta_t velocity yaw_rate) (particles pf))"
  by (auto simp: prediction_def split: prod.splits if_splits
      dest!: predict_arc_zero_noise predict_straight_zero_noise)

text \<open>Straight-line motion from the origin ends at \<open>(v * t, 0, 0)\<close>.\<close>

lemma straight_from_origin:
  "x_p p = 0 \<Longrightarrow> y_p p = 0 \<Longrightarrow> theta_p p = 0 \<Longrightarrow>
   particles (prediction rs t (0, 0, 0) v 0 (pf\<lparr>particles := [p]\<rparr>))
   = [p\<lparr>x_p := v * t, y_p := 0, theta_p := 0\<rparr>]"
  by (simp add: prediction_zero_noise spec_straight_update_def)

text \<open>
  Arc motion from the origin: the code's \<open>y\<close> is the negative of the closed form
  \<open>(v / w) * (1 - cos (w * t))\<close>, since it subtracts \<open>cos theta\<close> from
  \<open>cos (theta + w * t)\<close> and not the other way round.
\<close>

lemma arc_from_origin:
  "\<bar>w\<bar> > 1 / 1000000 \<Longrightarrow> x_p p = 0 \<Longrightarrow> y_p p = 0 \<Longrightarrow> theta_p p = 0 \<Longrightarrow>
   particles (prediction rs t (0, 0, 0) v w (pf\<lparr>particles := [p]\<rparr>))
   = [p\<lparr>x_p := (v / w) * sin (w * t), y_p := - ((v / w) * (1 - cos (w * t))),
        theta_p := w * t\<rparr>]"
  by (simp add: prediction_zero_noise spec_arc_update_def algebra_simps)

text \<open>
  Claim C2 does not hold of the code. With zero noise, velocity 1, yaw rate 2 and
  \<open>delta_t = 1\<close>, the particle at \<open>(0, 0, 0)\<close> lands at
  \<open>(sin 2 / 2, (cos 2 - 1) / 2, 2)\<close>: its \<open>y\<close> is negative, where the closed form of the
  claim, \<open>(v / w) * (1 - cos (w * t))\<close>, is positive.
\<close>

theorem prediction_arc_y_reversed:
  "particles (prediction rs 1 (0, 0, 0) 1 2
      \<lparr>num_particles = 1, particles = [default_Particle], weights = [], gen = g\<rparr>)
   = [default_Particle\<lparr>x_p := sin 2 / 2, y_p := (cos 2 - 1) / 2, theta_p := 2\<rparr>]
   \<and> (cos 2 - 1) / 2 < (0::real)
   \<and> (0::real) < (1 / 2) * (1 - cos (2 * 1))"
proof -
  have c: "cos (2::real) < 1"
    using cos_double_less_one [of "1::real"] by simp
  have "particles (prediction rs 1 (0, 0, 0) 1 2
      \<lparr>num_particles = 1, particles = [default_Particle], weights = [], gen = g\<rparr>)
   = [default_Particle\<lparr>x_p := sin 2 / 2, y_p := (cos 2 - 1) / 2, theta_p := 2\<rparr>]"
    by (simp add: prediction_zero_noise spec_arc_update_def default_Particle_def)
  with c show ?thesis by simp
qed

text \<open>
  Claim C5, as stated, fails: Predict with \<open>delta_t = -1\<close> (velocity 1, yaw rate 0, unit
  standard deviations, and a random source whose deviates are all 0) does not fail; it
  moves the particle at the origin to \<open>x = -1\<close>.
\<close>

theorem prediction_negative_delta_t_moves:
  "particles (prediction \<lparr>std_normal = \<lambda>g. (0, g), discrete = \<lambda>ws g. (0, g)\<rparr>
      (- 1) (1, 1, 1) 1 0
      \<lparr>num_particles = 1, particles = [default_Particle], weights = [], gen = ()\<rparr>)
   = [default_Particle\<lparr>x_p := - 1\<rparr>]
   \<and> default_Particle\<lparr>x_p := - 1\<rparr> \<noteq> default_Particle"
  by (simp add: prediction_def normal_distribution_def default_Particle_def)

text \<open>
  Claim C5, amended: Init, Predict and UpdateWeights validate none of their parameters and
  have no InvalidParameter failure. For any standard deviations, zero and negative ones
  included, Init installs a population of 100 particles, each of weight 1.0; for any
  \<open>delta_t\<close> and any standard deviations Predict returns with the population size, the
  weight of every particle and the WeightVector unchanged; and for any standard deviations
  UpdateWeights completes normally on a non-empty map.
\<close>

theorem no_parameter_validation:
  "length (particles (init rs x y theta std pf)) = 100
   \<and> (\<forall>p \<in> set (particles (init rs x y theta std pf)). weight p = 1)
   \<and> length (particles (prediction rs delta_t std_pos velocity yaw_rate pf)) = length (particles pf)
   \<and> map weight (particles (prediction rs delta_t std_pos velocity yaw_rate pf))
     = map weight (particles pf)
   \<and> weights (prediction rs delta_t std_pos velocity yaw_rate pf) = weights pf
   \<and> (landmark_list m \<noteq> [] \<longrightarrow>
        (\<exists>pf'. updateWeights sensor_range std_landmark observations m pf = Inr pf'))"
  using init_size [of rs x y theta std pf] init_weights [of rs x y theta std pf]
    prediction_size [of rs delta_t std_pos velocity yaw_rate pf]
    prediction_weights [of rs delta_t std_pos velocity yaw_rate pf]
    updateWeights_total [of m sensor_range std_landmark observations pf]
  by simp

theorem no_parameter_validation_witness:
  "map weight (particles (init \<lparr>std_normal = \<lambda>g. (1, g), discrete = \<lambda>ws g. (0, g)\<rparr> 4 5 0
      (0, - 1, 0) \<lparr>num_particles = 0, particles = [], weights = [], gen = ()\<rparr>))
   = replicate 100 1
   \<and> map weight (particles (prediction \<lparr>std_normal = \<lambda>g. (1, g), discrete = \<lambda>ws g. (0, g)\<rparr>
        (- 1) (0, - 1, 0) 1 0
        \<lparr>num_particles = 1, particles = [default_Particle\<lparr>weight := 1 / 2\<rparr>],
         weights = [1 / 2], gen = ()\<rparr>)) = [1 / 2]
   \<and> landmark_list \<lparr>landmark_list = [\<lparr>id_i = 1, x_f = 0, y_f = 0\<rparr>]\<rparr> \<noteq> []
   \<and> (\<exists>pf'. updateWeights 50 (0, - 1) [\<lparr>id_o = 0, x_o = 1, y_o = 1\<rparr>]
               \<lparr>landmark_list = [\<lparr>id_i = 1, x_f = 0, y_f = 0\<rparr>]\<rparr>
               \<lparr>num_particles = 1, particles = [default_Particle\<lparr>weight := 1 / 2\<rparr>],
                weights = [1 / 2], gen = ()\<rparr> = Inr pf')"
proof -
  let ?rs = "\<lparr>std_normal = \<lambda>g::unit. (1::real, g),
              discrete = \<lambda>(ws::real list) g::unit. (0::nat, g)\<rparr>"
  let ?s = "init ?rs 4 5 0 (0, - 1, 0)
              \<lparr>num_particles = 0, particles = [], weights = [], gen = ()\<rparr>"
  let ?pf = "\<lparr>num_particles = 1, particles = [default_Particle\<lparr>weight := 1 / 2\<rparr>],
              weights = [1 / 2], gen = ()\<rparr>"
  note a = no_parameter_validation
      [of ?rs 4 5 0 "(0, - 1, 0)" "\<lparr>num_particles = 0, particles = [], weights = [], gen = ()\<rparr>"]
  note b = no_parameter_validation
      [of ?rs 4 5 0 "(0, - 1, 0)" ?pf "- 1" "(0, - 1, 0)" 1 0
          "\<lparr>landmark_list = [\<lparr>id_i = 1, x_f = 0, y_f = 0\<rparr>]\<rparr>" 50 "(0, - 1)"
          "[\<lparr>id_o = 0, x_o = 1, y_o = 1\<rparr>]"]
  from a have len: "length (particles ?s) = 100"
    and w: "\<forall>p \<in> set (particles ?s). weight p = 1" by simp_all
  from w have "map weight (particles ?s) = map (\<lambda>p. 1) (particles ?s)"
    by (intro map_cong) simp_all
  with len have "map weight (particles ?s) = replicate 100 1"
    by (simp add: map_replicate_const)
  with b show ?thesis by simp
qed

section \<open>resample and the filter cycle\<close>

lemma length_resample_loop:
  "resample_loop rs ws ps n g = Inr (qs, g') \<Longrightarrow> length qs = n"
  by (induction n arbitrary: g qs) (auto split: sum.splits prod.splits if_splits)

lemma resample_size:
  "resample rs pf = Inr pf' \<Longrightarrow>
   length (particles pf') = length (particles pf) \<and> num_particles pf' = num_particles pf"
  by (auto simp: resample_def split: sum.splits prod.splits dest: length_resample_loop)

text \<open>Resample returns whenever every index it draws is within the population.\<close>

lemma resample_loop_total:
  "\<forall>g. fst (discrete rs ws g) < length ps \<Longrightarrow> \<exists>r. resample_loop rs ws ps n g = Inr r"
proof (induction n arbitrary: g)
  case 0
  then show ?case by simp
next
  case (Suc n)
  obtain i g' where d: "discrete rs ws g = (i, g')" by (cases "discrete rs ws g")
  with Suc.prems have "i < length ps" by (metis fst_conv)
  moreover from Suc.IH [OF Suc.prems, of g'] obtain r where
    "resample_loop rs ws ps n g' = Inr r" by blast
  ultimately show ?case using d by (cases r) simp
qed

lemma resample_total:
  "\<forall>g. fst (discrete rs (weights pf) g) < length (particles pf) \<Longrightarrow>
   \<exists>pf'. resample rs pf = Inr pf'"
  using resample_loop_total [of rs "weights pf" "particles pf" "length (particles pf)" "gen pf"]
  by (auto simp: resample_def split: prod.splits)

lemma step_size:
  assumes "step rs c pf = Inr pf'"
  shows "length (particles pf') = length (particles pf) \<and> num_particles pf' = num_particles pf"
proof (cases c)
  case (Predict delta_t std_pos velocity yaw_rate)
  with assms have "pf' = prediction rs delta_t std_pos velocity yaw_rate pf" by simp
  then show ?thesis by (simp add: prediction_size)
next
  case (Update sensor_range std_landmark observations m)
  with assms have "updateWeights sensor_range std_landmark observations m pf = Inr pf'" by simp
  from updateWeights_size [OF this] show ?thesis by simp
next
  case Resample
  with assms have "resample rs pf = Inr pf'" by simp
  from resample_size [OF this] show ?thesis .
qed

lemma run_size:
  "run rs cs pf = Inr pf' \<Longrightarrow>
   length (particles pf') = length (particles pf) \<and> num_particles pf' = num_particles pf"
proof (induction cs arbitrary: pf)
  case Nil
  then show ?case by simp
next
  case (Cons c cs)
  then obtain pf1 where 1: "step rs c pf = Inr pf1" and 2: "run rs cs pf1 = Inr pf'"
    by (auto split: sum.splits)
  from step_size [OF 1] Cons.IH [OF 2] show ?case by simp
qed

text \<open>
  Claim C6: after Init, whatever sequence of Predict, UpdateWeights and Resample calls has
  run, the population holds as many particles as the configured count, which is 100; and
  Resample returns a population of the size of the one it was given.
\<close>

theorem population_size_invariant:
  "(run rs cs (init rs x y theta std pf0) = Inr pf'
      \<longrightarrow> length (particles pf') = 100 \<and> num_particles pf' = 100)
   \<and> (resample rs pf = Inr pf2 \<longrightarrow> length (particles pf2) = length (particles pf))"
  using run_size [of rs cs "init rs x y theta std pf0" pf'] init_size [of rs x y theta std pf0]
    resample_size [of rs pf pf2]
  by simp

theorem population_size_invariant_witness:
  "\<exists>pf' pf2.
     run \<lparr>std_normal = \<lambda>g. (0, g), discrete = \<lambda>ws g. (0, g)\<rparr>
       [Predict (1 / 10) (0, 0, 0) 1 0,
        Update 50 (1, 1) [\<lparr>id_o = 0, x_o = 1, y_o = 1\<rparr>]
          \<lparr>landmark_list = [\<lparr>id_i = 1, x_f = 0, y_f = 0\<rparr>]\<rparr>,
        Resample]
       (init \<lparr>std_normal = \<lambda>g. (0, g), discrete = \<lambda>ws g. (0, g)\<rparr> 0 0 0 (1, 1, 1)
          \<lparr>num_particles = 0, particles = [], weights = [], gen = ()\<rparr>) = Inr pf'
     \<and> length (particles pf') = 100 \<and> num_particles pf' = 100
     \<and> resample \<lparr>std_normal = \<lambda>g. (0, g), discrete = \<lambda>ws g. (0, g)\<rparr>
         (init \<lparr>std_normal = \<lambda>g. (0, g), discrete = \<lambda>ws g. (0, g)\<rparr> 0 0 0 (1, 1, 1)
            \<lparr>num_particles = 0, particles = [], weights = [], gen = ()\<rparr>) = Inr pf2
     \<and> length (particles pf2) = 100"
proof -
  let ?rs = "\<lparr>std_normal = \<lambda>g::unit. (0::real, g),
              discrete = \<lambda>(ws::real list) g::unit. (0::nat, g)\<rparr>"
  let ?m = "\<lparr>landmark_list = [\<lparr>id_i = 1, x_f = 0, y_f = 0\<rparr>]\<rparr>"
  let ?obs = "[\<lparr>id_o = 0, x_o = 1, y_o = 1\<rparr>]"
  let ?pf = "\<lparr>num_particles = 0, particles = [], weights = [], gen = ()\<rparr>"
  let ?cs = "[Predict (1 / 10) (0, 0, 0) 1 0, Update 50 (1, 1) ?obs ?m, Resample]"
  let ?s0 = "init ?rs 0 0 0 (1, 1, 1) ?pf"
  let ?s1 = "prediction ?rs (1 / 10) (0, 0, 0) 1 0 ?s0"
  have "landmark_list ?m \<noteq> []" by simp
  from updateWeights_total [OF this, of 50 "(1, 1)" ?obs ?s1] obtain s2 where
    s2: "updateWeights 50 (1, 1) ?obs ?m ?s1 = Inr s2" by blast
  have "length (particles s2) = 100"
    using updateWeights_size [OF s2] by (simp add: prediction_size init_size)
  then have "\<forall>g. fst (discrete ?rs (weights s2) g) < length (particles s2)" by simp
  from resample_total [OF this] obtain s3 where s3: "resample ?rs s2 = Inr s3" by blast
  have r: "run ?rs ?cs ?s0 = Inr s3"
    using s2 s3 by simp
  have "\<forall>g. fst (discrete ?rs (weights ?s0) g) < length (particles ?s0)"
    by (simp add: init_size)
  from resample_total [OF this] obtain s4 where s4: "resample ?rs ?s0 = Inr s4" by blast
  from population_size_invariant [of ?rs ?cs 0 0 0 "(1, 1, 1)" ?pf s3 ?s0 s4] r s4
  have "length (particles s3) = 100 \<and> num_particles s3 = 100 \<and> length (particles s4) = 100"
    by (simp add: init_size)
  with r s4 show ?thesis by blast
qed

end
